theory Spec2Isabelle
  imports Main "HOL-Library.Sublist"
begin

section \<open>Exceptions\<close>

text \<open>
  Every handler of the modelled code is \<^verbatim>\<open>except Exception\<close>; the classes below are the
  ones the code raises itself or provokes from the interpreter, and \<open>ExternalError\<close>
  stands for any other \<^verbatim>\<open>Exception\<close> raised by a collaborator outside the repository.
\<close>

datatype error =
    RuntimeError
  | TypeError
  | ValueError
  | AttributeError
  | OverflowError
  | CalledProcessError
  | ExternalError

section \<open>The orchestrator: \<^verbatim>\<open>core.py\<close>\<close>

subsection \<open>Environment bring-up\<close>

text \<open>
  \<^verbatim>\<open>setup_environment\<close> runs \<^verbatim>\<open>adb devices\<close> and then \<^verbatim>\<open>env_launcher.load_and_setup_env\<close>.
  Both are collaborators: \<open>adb\<close> is the outcome of the subprocess (\<open>Inr\<close> its standard
  output) and \<open>load\<close> is the launcher, which may change the device (the world \<open>'w\<close>) and
  either returns the environment or raises.
\<close>

definition is_space :: "char \<Rightarrow> bool" where
  "is_space c = (c \<in> set [CHR '' '', CHR 0x09, CHR 0x0A, CHR 0x0B, CHR 0x0C, CHR 0x0D,
                           CHR 0x1C, CHR 0x1D, CHR 0x1E, CHR 0x1F])"

definition strip :: "string \<Rightarrow> string" where
  "strip s = rev (dropWhile is_space (rev (dropWhile is_space s)))"

definition startswith :: "string \<Rightarrow> string \<Rightarrow> bool" where
  "startswith s p = prefix p s"

definition setup_environment ::
  "string option \<Rightarrow> (error + string) \<Rightarrow> ('w \<Rightarrow> (error + 'env) \<times> 'w) \<Rightarrow> 'w \<Rightarrow> (error + 'env) \<times> 'w"
where
  "setup_environment device_serial adb load w =
     (case adb of
        Inr stdout \<Rightarrow>
          (let devices = strip stdout in
           if (case device_serial of
                 None \<Rightarrow> True
               | Some serial \<Rightarrow> serial = [] \<or> startswith serial ''emulator-'')
              \<and> \<not> sublist ''emulator'' devices
           then (Inl RuntimeError, w)
           else load w)
      | Inl e \<Rightarrow> (if e = CalledProcessError then load w else (Inl e, w)))"

subsection \<open>The priority list\<close>

datatype configurator_class =
    DateTimeConfigurator
  | ContactsConfigurator
  | SMSConfigurator
  | CalendarConfigurator
  | RecipeConfigurator
  | TasksConfigurator
  | ExpenseConfigurator
  | MusicConfigurator
  | JoplinConfigurator
  | OsmAndConfigurator
  | AudioRecorderConfigurator
  | MarkorConfigurator
  | FilesConfigurator
  | OpenTracksConfigurator
  | GalleryConfigurator
  | SystemConfigurator

definition configuration_order :: "(string \<times> configurator_class) list" where
  "configuration_order =
     [(''datetime'', DateTimeConfigurator),
      (''contacts'', ContactsConfigurator),
      (''sms'', SMSConfigurator),
      (''calendar'', CalendarConfigurator),
      (''recipe'', RecipeConfigurator),
      (''tasks'', TasksConfigurator),
      (''expense'', ExpenseConfigurator),
      (''music'', MusicConfigurator),
      (''joplin'', JoplinConfigurator),
      (''osmand'', OsmAndConfigurator),
      (''audio_recorder'', AudioRecorderConfigurator),
      (''markor'', MarkorConfigurator),
      (''files'', FilesConfigurator),
      (''opentracks'', OpenTracksConfigurator),
      (''gallery'', GalleryConfigurator),
      (''system'', SystemConfigurator)]"

subsection \<open>The run\<close>

text \<open>
  What \<^verbatim>\<open>configurator_class(self.env, self.config[key])\<close> followed by \<^verbatim>\<open>.configure()\<close> does
  is a parameter \<open>run\<close> of the orchestrator: it acts on the world (the device and whatever
  the configurator logs on its own logger) and either returns the boolean of
  \<^verbatim>\<open>configure()\<close> or raises.
\<close>

datatype outcome = Returned bool | Raised error

text \<open>The records \<^verbatim>\<open>initialize\<close> itself writes to the root logger, in order.\<close>

datatype event =
    Beginning
  | Configuring string
  | Configured string
  | FailedToConfigure string
  | ErrorConfiguring string error
  | NotInOrder string
  | Completed
  | CompletedWithFailures nat
  | CriticalError error

record 'w run_state =
  total_count :: nat
  success_count :: nat
  world :: 'w
  trace :: "event list"

text \<open>
  The configuration is the mapping read from the JSON file, kept as an association
  list; \<open>map_of\<close> is the lookup, so membership \<^verbatim>\<open>key in self.config\<close> is
  \<open>map_of config key \<noteq> None\<close>.
\<close>

definition configure_module ::
  "(configurator_class \<Rightarrow> 'env \<Rightarrow> 'frag \<Rightarrow> 'w \<Rightarrow> outcome \<times> 'w) \<Rightarrow> 'env \<Rightarrow>
   string \<Rightarrow> configurator_class \<Rightarrow> 'frag \<Rightarrow> 'w run_state \<Rightarrow> 'w run_state"
where
  "configure_module run env config_key cls fragment st =
     (let st1 = st\<lparr>total_count := total_count st + 1,
                   trace := trace st @ [Configuring config_key]\<rparr>;
          res = run cls env fragment (world st1);
          st2 = st1\<lparr>world := snd res\<rparr>
      in case fst res of
           Returned ok \<Rightarrow>
             if ok
             then st2\<lparr>success_count := success_count st2 + 1,
                      trace := trace st2 @ [Configured config_key]\<rparr>
             else st2\<lparr>trace := trace st2 @ [FailedToConfigure config_key]\<rparr>
         | Raised e \<Rightarrow> st2\<lparr>trace := trace st2 @ [ErrorConfiguring config_key e]\<rparr>)"

fun configure_loop ::
  "(configurator_class \<Rightarrow> 'env \<Rightarrow> 'frag \<Rightarrow> 'w \<Rightarrow> outcome \<times> 'w) \<Rightarrow> 'env \<Rightarrow>
   (string \<times> 'frag) list \<Rightarrow> (string \<times> configurator_class) list \<Rightarrow>
   'w run_state \<Rightarrow> 'w run_state"
where
  "configure_loop run env config [] st = st"
| "configure_loop run env config ((config_key, cls) # rest) st =
     (case map_of config config_key of
        None \<Rightarrow> configure_loop run env config rest st
      | Some fragment \<Rightarrow>
          configure_loop run env config rest
            (configure_module run env config_key cls fragment st))"

text \<open>
  \<^verbatim>\<open>set(self.config.keys()) - {item[0] for item in configuration_order}\<close>: a set, so each
  key once; Python leaves the iteration order of a set open, and the list below fixes
  one. The loop over it only counts and warns.
\<close>

definition remaining_configs :: "(string \<times> 'frag) list \<Rightarrow> string list" where
  "remaining_configs config =
     remdups (filter (\<lambda>k. k \<notin> set (map fst configuration_order)) (map fst config))"

fun remaining_loop :: "string list \<Rightarrow> 'w run_state \<Rightarrow> 'w run_state" where
  "remaining_loop [] st = st"
| "remaining_loop (config_key # rest) st =
     remaining_loop rest
       (st\<lparr>total_count := total_count st + 1,
           trace := trace st @ [NotInOrder config_key],
           success_count := success_count st + 1\<rparr>)"

definition initialize ::
  "(configurator_class \<Rightarrow> 'env \<Rightarrow> 'frag \<Rightarrow> 'w \<Rightarrow> outcome \<times> 'w) \<Rightarrow>
   string option \<Rightarrow> (error + string) \<Rightarrow> ('w \<Rightarrow> (error + 'env) \<times> 'w) \<Rightarrow>
   (string \<times> 'frag) list \<Rightarrow> 'w \<Rightarrow> bool \<times> 'w run_state"
where
  "initialize run device_serial adb load config w =
     (let start = \<lparr>total_count = 0, success_count = 0, world = w, trace = [Beginning]\<rparr>;
          res = setup_environment device_serial adb load w
      in case fst res of
           Inl e \<Rightarrow>
             (False, start\<lparr>world := snd res, trace := trace start @ [CriticalError e]\<rparr>)
         | Inr env \<Rightarrow>
             (let st = remaining_loop (remaining_configs config)
                         (configure_loop run env config configuration_order
                            (start\<lparr>world := snd res\<rparr>))
              in if success_count st = total_count st
                 then (True, st\<lparr>trace := trace st @ [Completed]\<rparr>)
                 else (False, st\<lparr>trace := trace st @
                         [CompletedWithFailures (total_count st - success_count st)]\<rparr>)))"

section \<open>Environment resolution: \<^verbatim>\<open>modules/base_configurator.py\<close>\<close>

text \<open>
  The environment handed to a configurator is an object of unknown shape. The code
  observes three things of it: its truth value, whether it has an attribute, and the
  attribute's value. \<open>ONone\<close> is Python's \<^verbatim>\<open>None\<close>, which has neither attribute.
\<close>

datatype pyobj = ONone | Obj bool "(string \<times> pyobj) list"

fun obj_truthy :: "pyobj \<Rightarrow> bool" where
  "obj_truthy ONone = False"
| "obj_truthy (Obj t attrs) = t"

fun getattr :: "pyobj \<Rightarrow> string \<Rightarrow> pyobj option" where
  "getattr ONone name = None"
| "getattr (Obj t attrs) name = map_of attrs name"

definition hasattr :: "pyobj \<Rightarrow> string \<Rightarrow> bool" where
  "hasattr obj name = (getattr obj name \<noteq> None)"

text \<open>The fields \<^verbatim>\<open>__init__\<close> sets (the logger apart).\<close>

record 'c configurator =
  env :: pyobj
  env_controller :: pyobj
  config :: 'c

definition BaseConfigurator_init :: "pyobj \<Rightarrow> 'c \<Rightarrow> 'c configurator" where
  "BaseConfigurator_init e cfg =
     (if hasattr e ''base_env''
      then \<lparr>env = e, env_controller = the (getattr e ''base_env''), config = cfg\<rparr>
      else if hasattr e ''controller''
      then \<lparr>env = e, env_controller = the (getattr e ''controller''), config = cfg\<rparr>
      else \<lparr>env = ONone, env_controller = e, config = cfg\<rparr>)"

definition ensure_environment :: "'c configurator \<Rightarrow> error + unit" where
  "ensure_environment self =
     (if \<not> obj_truthy (env_controller self) then Inl RuntimeError else Inr ())"

text \<open>
  The specification's words for the same resolution: one of three shapes is detected,
  and the shape decides the pair (rich handle or null, controller).
\<close>

datatype shape = BaseControllerRelation | ControllerRelation | BareController

definition detect_shape :: "pyobj \<Rightarrow> shape" where
  "detect_shape e =
     (if hasattr e ''base_env'' then BaseControllerRelation
      else if hasattr e ''controller'' then ControllerRelation
      else BareController)"

definition resolve_spec :: "pyobj \<Rightarrow> pyobj \<times> pyobj" where
  "resolve_spec e =
     (case detect_shape e of
        BaseControllerRelation \<Rightarrow> (e, the (getattr e ''base_env''))
      | ControllerRelation \<Rightarrow> (e, the (getattr e ''controller''))
      | BareController \<Rightarrow> (ONone, e))"

section \<open>Python values of a configuration fragment\<close>

text \<open>
  A fragment is what \<^verbatim>\<open>json.load\<close> returns. Floating-point numbers are kept abstract:
  \<open>'f\<close> is their type and a record of operations gives the few the code applies to
  them, so every result below holds whatever the arithmetic of floats is.
\<close>

datatype 'f pyval =
    PNone
  | PBool bool
  | PInt int
  | PFloat 'f
  | PStr string
  | PList "'f pyval list"
  | PDict "(string \<times> 'f pyval) list"

record 'f float_ops =
  one_point_zero :: 'f
  nonzero :: "'f \<Rightarrow> bool"
  float_mul_int :: "'f \<Rightarrow> int \<Rightarrow> error + 'f"
  float_add :: "'f \<Rightarrow> 'f \<Rightarrow> 'f"
  float_add_int :: "'f \<Rightarrow> int \<Rightarrow> error + 'f"
  float_le_int :: "'f \<Rightarrow> int \<Rightarrow> bool"
  float_ge_int :: "'f \<Rightarrow> int \<Rightarrow> bool"
  float_gt_int :: "'f \<Rightarrow> int \<Rightarrow> bool"

fun truthy :: "'f float_ops \<Rightarrow> 'f pyval \<Rightarrow> bool" where
  "truthy fo PNone = False"
| "truthy fo (PBool b) = b"
| "truthy fo (PInt n) = (n \<noteq> 0)"
| "truthy fo (PFloat x) = nonzero fo x"
| "truthy fo (PStr s) = (s \<noteq> [])"
| "truthy fo (PList xs) = (xs \<noteq> [])"
| "truthy fo (PDict kvs) = (kvs \<noteq> [])"

fun is_str :: "'f pyval \<Rightarrow> bool" where
  "is_str (PStr s) = True"
| "is_str v = False"

text \<open>\<^verbatim>\<open>d.get(key, default)\<close>: only a dict has the method.\<close>

fun py_get :: "'f pyval \<Rightarrow> string \<Rightarrow> 'f pyval \<Rightarrow> error + 'f pyval" where
  "py_get (PDict kvs) key dflt =
     Inr (case map_of kvs key of Some v \<Rightarrow> v | None \<Rightarrow> dflt)"
| "py_get v key dflt = Inl AttributeError"

text \<open>
  What a \<^verbatim>\<open>for\<close> loop iterates over: the elements of a list, the characters of a
  string, the keys of a dict; anything else is not iterable.
\<close>

fun py_iter :: "'f pyval \<Rightarrow> error + 'f pyval list" where
  "py_iter (PList xs) = Inr xs"
| "py_iter (PStr s) = Inr (map (\<lambda>c. PStr [c]) s)"
| "py_iter (PDict kvs) = Inr (map (\<lambda>kv. PStr (fst kv)) kvs)"
| "py_iter v = Inl TypeError"

text \<open>\<^verbatim>\<open>v * n\<close> for an int \<open>n\<close>, and \<^verbatim>\<open>a + b\<close>; \<^verbatim>\<open>bool\<close> is a subclass of \<^verbatim>\<open>int\<close>.\<close>

fun py_mul_int :: "'f float_ops \<Rightarrow> 'f pyval \<Rightarrow> int \<Rightarrow> error + 'f pyval" where
  "py_mul_int fo (PBool b) n = Inr (PInt ((if b then 1 else 0) * n))"
| "py_mul_int fo (PInt m) n = Inr (PInt (m * n))"
| "py_mul_int fo (PFloat x) n =
     (case float_mul_int fo x n of Inl e \<Rightarrow> Inl e | Inr y \<Rightarrow> Inr (PFloat y))"
| "py_mul_int fo (PStr s) n = Inr (PStr (concat (replicate (nat n) s)))"
| "py_mul_int fo (PList xs) n = Inr (PList (concat (replicate (nat n) xs)))"
| "py_mul_int fo v n = Inl TypeError"

datatype 'f num = NInt int | NFloat 'f

fun as_num :: "'f pyval \<Rightarrow> 'f num option" where
  "as_num (PBool b) = Some (NInt (if b then 1 else 0))"
| "as_num (PInt n) = Some (NInt n)"
| "as_num (PFloat x) = Some (NFloat x)"
| "as_num v = None"

fun num_add :: "'f float_ops \<Rightarrow> 'f num \<Rightarrow> 'f num \<Rightarrow> error + 'f pyval" where
  "num_add fo (NInt m) (NInt n) = Inr (PInt (m + n))"
| "num_add fo (NInt m) (NFloat y) =
     (case float_add_int fo y m of Inl e \<Rightarrow> Inl e | Inr z \<Rightarrow> Inr (PFloat z))"
| "num_add fo (NFloat x) (NInt n) =
     (case float_add_int fo x n of Inl e \<Rightarrow> Inl e | Inr z \<Rightarrow> Inr (PFloat z))"
| "num_add fo (NFloat x) (NFloat y) = Inr (PFloat (float_add fo x y))"

definition py_add :: "'f float_ops \<Rightarrow> 'f pyval \<Rightarrow> 'f pyval \<Rightarrow> error + 'f pyval" where
  "py_add fo a b =
     (case a of
        PStr s \<Rightarrow> (case b of PStr t \<Rightarrow> Inr (PStr (s @ t)) | _ \<Rightarrow> Inl TypeError)
      | PList xs \<Rightarrow> (case b of PList ys \<Rightarrow> Inr (PList (xs @ ys)) | _ \<Rightarrow> Inl TypeError)
      | _ \<Rightarrow>
          (case as_num a of
             None \<Rightarrow> Inl TypeError
           | Some x \<Rightarrow> (case as_num b of None \<Rightarrow> Inl TypeError | Some y \<Rightarrow> num_add fo x y)))"

text \<open>\<^verbatim>\<open>n <= v\<close>, \<^verbatim>\<open>v <= n\<close> and \<^verbatim>\<open>v > n\<close> for an int \<open>n\<close>.\<close>

definition py_int_le :: "'f float_ops \<Rightarrow> int \<Rightarrow> 'f pyval \<Rightarrow> error + bool" where
  "py_int_le fo n v =
     (case as_num v of
        None \<Rightarrow> Inl TypeError
      | Some (NInt m) \<Rightarrow> Inr (n \<le> m)
      | Some (NFloat x) \<Rightarrow> Inr (float_ge_int fo x n))"

definition py_le_int :: "'f float_ops \<Rightarrow> 'f pyval \<Rightarrow> int \<Rightarrow> error + bool" where
  "py_le_int fo v n =
     (case as_num v of
        None \<Rightarrow> Inl TypeError
      | Some (NInt m) \<Rightarrow> Inr (m \<le> n)
      | Some (NFloat x) \<Rightarrow> Inr (float_le_int fo x n))"

definition py_gt_int :: "'f float_ops \<Rightarrow> 'f pyval \<Rightarrow> int \<Rightarrow> error + bool" where
  "py_gt_int fo v n =
     (case as_num v of
        None \<Rightarrow> Inl TypeError
      | Some (NInt m) \<Rightarrow> Inr (n < m)
      | Some (NFloat x) \<Rightarrow> Inr (float_gt_int fo x n))"

section \<open>Configurators acting on the device\<close>

text \<open>
  A configurator changes the device through collaborators outside the repository and
  writes records to its own logger. Both are state: \<open>device\<close> is whatever the
  collaborators act on, \<open>logged\<close> the records in order (level, message, interpolated
  values). A piece of code is a function from the state to a result (\<open>Inl\<close> the
  exception raised) and the state it leaves; what was done before an exception stays
  done.
\<close>

datatype level = INFO | WARNING | ERROR

record ('f, 'dev) machine =
  device :: 'dev
  logged :: "(level \<times> string \<times> 'f pyval list) list"

definition ret :: "'a \<Rightarrow> 's \<Rightarrow> (error + 'a) \<times> 's" where
  "ret x s = (Inr x, s)"

definition from_result :: "error + 'a \<Rightarrow> 's \<Rightarrow> (error + 'a) \<times> 's" where
  "from_result r s = (r, s)"

definition and_then ::
  "('s \<Rightarrow> (error + 'a) \<times> 's) \<Rightarrow> ('a \<Rightarrow> 's \<Rightarrow> (error + 'b) \<times> 's) \<Rightarrow> 's \<Rightarrow> (error + 'b) \<times> 's"
where
  "and_then m f s = (case fst (m s) of Inl e \<Rightarrow> (Inl e, snd (m s)) | Inr x \<Rightarrow> f x (snd (m s)))"

text \<open>\<^verbatim>\<open>try: m except Exception as e: h\<close>\<close>

definition catch ::
  "('s \<Rightarrow> (error + 'a) \<times> 's) \<Rightarrow> (error \<Rightarrow> 's \<Rightarrow> (error + 'a) \<times> 's) \<Rightarrow> 's \<Rightarrow> (error + 'a) \<times> 's"
where
  "catch m h s = (case fst (m s) of Inl e \<Rightarrow> h e (snd (m s)) | Inr x \<Rightarrow> (Inr x, snd (m s)))"

definition external ::
  "('dev \<Rightarrow> (error + 'a) \<times> 'dev) \<Rightarrow> ('f, 'dev) machine \<Rightarrow> (error + 'a) \<times> ('f, 'dev) machine"
where
  "external call s = (fst (call (device s)), s\<lparr>device := snd (call (device s))\<rparr>)"

definition log_msg ::
  "level \<Rightarrow> string \<Rightarrow> 'f pyval list \<Rightarrow> ('f, 'dev) machine \<Rightarrow> (error + unit) \<times> ('f, 'dev) machine"
where
  "log_msg lvl msg args s = (Inr (), s\<lparr>logged := logged s @ [(lvl, msg, args)]\<rparr>)"

fun for_each :: "('a \<Rightarrow> 's \<Rightarrow> (error + unit) \<times> 's) \<Rightarrow> 'a list \<Rightarrow> 's \<Rightarrow> (error + unit) \<times> 's" where
  "for_each body [] s = ret () s"
| "for_each body (x # xs) s = and_then (body x) (\<lambda>_. for_each body xs) s"

text \<open>What the orchestrator sees of a \<^verbatim>\<open>configure()\<close> call.\<close>

definition as_outcome :: "(error + bool) \<times> 's \<Rightarrow> outcome \<times> 's" where
  "as_outcome r = (case fst r of Inl e \<Rightarrow> (Raised e, snd r) | Inr b \<Rightarrow> (Returned b, snd r))"

subsection \<open>\<^verbatim>\<open>modules/contacts_configurator.py\<close>\<close>

text \<open>The functions of \<^verbatim>\<open>android_world.utils.contacts_utils\<close> the configurator calls.\<close>

record ('f, 'dev) contacts_utils =
  clear_contacts :: "pyobj \<Rightarrow> 'dev \<Rightarrow> (error + unit) \<times> 'dev"
  add_contact :: "'f pyval \<Rightarrow> 'f pyval \<Rightarrow> pyobj \<Rightarrow> 'f pyval \<Rightarrow> 'dev \<Rightarrow> (error + unit) \<times> 'dev"
  list_contacts :: "pyobj \<Rightarrow> 'dev \<Rightarrow> (error + ('f pyval \<times> 'f pyval) list) \<times> 'dev"

definition add_one_contact ::
  "'f float_ops \<Rightarrow> ('f, 'dev) contacts_utils \<Rightarrow> pyobj \<Rightarrow> 'f pyval \<Rightarrow> 'f pyval \<Rightarrow>
   ('f, 'dev) machine \<Rightarrow> (error + unit) \<times> ('f, 'dev) machine"
where
  "add_one_contact fo cu controller ui_delay contact =
     and_then (from_result (py_get contact ''name'' (PStr ''''))) (\<lambda>name.
     and_then (from_result (py_get contact ''number'' (PStr ''''))) (\<lambda>number.
     if truthy fo name \<and> truthy fo number
     then catch
            (and_then (external (add_contact cu name number controller ui_delay)) (\<lambda>_.
             log_msg INFO ''Added contact'' [name, number]))
            (\<lambda>e. log_msg ERROR ''Failed to add contact'' [name])
     else ret ()))"

definition add_contacts ::
  "'f float_ops \<Rightarrow> ('f, 'dev) contacts_utils \<Rightarrow> 'f pyval configurator \<Rightarrow>
   ('f, 'dev) machine \<Rightarrow> (error + unit) \<times> ('f, 'dev) machine"
where
  "add_contacts fo cu self =
     and_then (from_result (py_get (config self) ''add_contacts'' (PList []))) (\<lambda>contacts_to_add.
     and_then (from_result (py_get (config self) ''ui_delay_sec'' (PFloat (one_point_zero fo))))
       (\<lambda>ui_delay.
     and_then (from_result (py_iter contacts_to_add)) (\<lambda>items.
     for_each (add_one_contact fo cu (env_controller self) ui_delay) items)))"

definition verify_contacts ::
  "('f, 'dev) contacts_utils \<Rightarrow> 'f pyval configurator \<Rightarrow>
   ('f, 'dev) machine \<Rightarrow> (error + unit) \<times> ('f, 'dev) machine"
where
  "verify_contacts cu self =
     catch
       (and_then (external (list_contacts cu (env_controller self))) (\<lambda>contacts_list.
        and_then (log_msg INFO ''Verified contacts'' [PInt (int (length contacts_list))]) (\<lambda>_.
        for_each (\<lambda>contact. log_msg INFO ''contact'' [fst contact, snd contact]) contacts_list)))
       (\<lambda>e. log_msg ERROR ''Failed to verify contacts'' [])"

definition contacts_configure ::
  "'f float_ops \<Rightarrow> ('f, 'dev) contacts_utils \<Rightarrow> 'f pyval configurator \<Rightarrow>
   ('f, 'dev) machine \<Rightarrow> (error + bool) \<times> ('f, 'dev) machine"
where
  "contacts_configure fo cu self =
     and_then (from_result (ensure_environment self)) (\<lambda>_.
     and_then (log_msg INFO ''Configuring contacts...'' []) (\<lambda>_.
     catch
       (and_then (from_result (py_get (config self) ''clear_contacts'' (PBool False))) (\<lambda>clear.
        and_then
          (if truthy fo clear
           then and_then (external (clear_contacts cu (env_controller self))) (\<lambda>_.
                log_msg INFO ''Cleared all contacts.'' [])
           else ret ()) (\<lambda>_.
        and_then (add_contacts fo cu self) (\<lambda>_.
        and_then (from_result (py_get (config self) ''verify_contacts'' (PBool False))) (\<lambda>verify.
        and_then (if truthy fo verify then verify_contacts cu self else ret ()) (\<lambda>_.
        ret True))))))
       (\<lambda>e. and_then (log_msg ERROR ''Failed to configure contacts'' []) (\<lambda>_. ret False))))"

subsection \<open>\<^verbatim>\<open>modules/calendar_configurator.py\<close>\<close>

text \<open>The fields of \<^verbatim>\<open>sqlite_schema_utils.CalendarEvent\<close> the configurator sets.\<close>

record 'f calendar_event =
  start_ts :: "'f pyval"
  end_ts :: "'f pyval"
  title :: "'f pyval"
  description :: "'f pyval"
  location :: "'f pyval"
  repeat_interval :: "'f pyval"
  repeat_rule :: "'f pyval"

text \<open>
  The collaborators: \<^verbatim>\<open>adb_utils\<close>, \<^verbatim>\<open>calendar_utils\<close>, \<^verbatim>\<open>sqlite_utils\<close> and the
  \<^verbatim>\<open>datetime\<close> library. \<open>iso_timestamp\<close> is
  \<^verbatim>\<open>int(datetime.datetime.fromisoformat(s).timestamp())\<close> and \<open>fromtimestamp\<close> is
  \<^verbatim>\<open>datetime.datetime.fromtimestamp\<close>, of which only whether it raises matters.
\<close>

record ('f, 'dev) calendar_deps =
  get_all_package_names :: "pyobj \<Rightarrow> 'dev \<Rightarrow> (error + string list) \<times> 'dev"
  launch_app :: "string \<Rightarrow> pyobj \<Rightarrow> 'dev \<Rightarrow> (error + unit) \<times> 'dev"
  set_root_if_needed :: "pyobj \<Rightarrow> 'dev \<Rightarrow> (error + unit) \<times> 'dev"
  grant_permissions :: "string \<Rightarrow> string \<Rightarrow> pyobj \<Rightarrow> 'dev \<Rightarrow> (error + unit) \<times> 'dev"
  press_home_button :: "pyobj \<Rightarrow> 'dev \<Rightarrow> (error + unit) \<times> 'dev"
  clear_calendar_db :: "pyobj \<Rightarrow> 'dev \<Rightarrow> (error + unit) \<times> 'dev"
  get_rows_from_remote_device :: "pyobj \<Rightarrow> 'dev \<Rightarrow> (error + 'f calendar_event list) \<times> 'dev"
  execute_sql_command :: "string \<Rightarrow> pyobj \<Rightarrow> 'dev \<Rightarrow> (error + unit) \<times> 'dev"
  add_events :: "'f calendar_event list \<Rightarrow> pyobj \<Rightarrow> 'dev \<Rightarrow> (error + unit) \<times> 'dev"
  add_random_events :: "pyobj \<Rightarrow> 'f pyval \<Rightarrow> 'dev \<Rightarrow> (error + unit) \<times> 'dev"
  generate_simple_calendar_weekly_repeat_rule :: "'f pyval \<Rightarrow> error + 'f pyval"
  iso_timestamp :: "string \<Rightarrow> error + int"
  fromtimestamp :: "'f pyval \<Rightarrow> error + unit"

definition calendar_package :: string where
  "calendar_package = ''com.simplemobiletools.calendar.pro''"

definition setup_calendar_app ::
  "('f, 'dev) calendar_deps \<Rightarrow> 'f pyval configurator \<Rightarrow>
   ('f, 'dev) machine \<Rightarrow> (error + bool) \<times> ('f, 'dev) machine"
where
  "setup_calendar_app deps self =
     catch
       (and_then (log_msg INFO ''Ensure calendar app is running...'' []) (\<lambda>_.
        and_then (external (get_all_package_names deps (env_controller self))) (\<lambda>all_packages.
        if calendar_package \<notin> set all_packages
        then and_then (log_msg ERROR ''Calendar app is not installed!'' []) (\<lambda>_. ret False)
        else
          and_then (external (launch_app deps ''simple calendar pro'' (env_controller self))) (\<lambda>_.
          and_then (external (set_root_if_needed deps (env_controller self))) (\<lambda>_.
          and_then (external (grant_permissions deps calendar_package
                      ''android.permission.READ_CALENDAR'' (env_controller self))) (\<lambda>_.
          and_then (external (grant_permissions deps calendar_package
                      ''android.permission.WRITE_CALENDAR'' (env_controller self))) (\<lambda>_.
          and_then (external (press_home_button deps (env_controller self))) (\<lambda>_.
          ret True))))))))
       (\<lambda>e. and_then (log_msg ERROR ''Error starting calendar app or setting permissions'' [])
               (\<lambda>_. ret True))"

definition clear_calendar_events ::
  "('f, 'dev) calendar_deps \<Rightarrow> 'f pyval configurator \<Rightarrow>
   ('f, 'dev) machine \<Rightarrow> (error + unit) \<times> ('f, 'dev) machine"
where
  "clear_calendar_events deps self =
     catch
       (and_then (log_msg INFO ''Attempting to clear calendar database'' []) (\<lambda>_.
        and_then (external (clear_calendar_db deps (env_controller self))) (\<lambda>_.
        and_then (log_msg INFO ''Successfully cleared all calendar events'' []) (\<lambda>_.
        catch
          (and_then (external (get_rows_from_remote_device deps (env_controller self))) (\<lambda>events.
           log_msg INFO ''Remaining events after clearing'' [PInt (int (length events))]))
          (\<lambda>e. log_msg WARNING ''Unable to verify clearing result'' [])))))
       (\<lambda>e. and_then (log_msg ERROR ''Failed to clear calendar events'' []) (\<lambda>_.
             catch
               (and_then (external (execute_sql_command deps ''DELETE FROM events;''
                           (env_controller self))) (\<lambda>_.
                log_msg INFO ''Cleared calendar events using direct SQL command'' []))
               (\<lambda>e2. log_msg ERROR ''Alternative clearing method also failed'' [])))"

text \<open>
  Lines 135 to 147, the repeat settings of one event:
  \<^verbatim>\<open>repeat_interval == 'weekly' and 1 <= day_of_week <= 7\<close> evaluates left to right and
  stops at the first false operand. The result is the pair (repeat_interval, repeat_rule).
\<close>

definition weekly_condition :: "'f float_ops \<Rightarrow> 'f pyval \<Rightarrow> 'f pyval \<Rightarrow> error + bool" where
  "weekly_condition fo repeat_interval0 day_of_week =
     (if repeat_interval0 \<noteq> PStr ''weekly'' then Inr False
      else case py_int_le fo 1 day_of_week of
             Inl e \<Rightarrow> Inl e
           | Inr lower \<Rightarrow> if \<not> lower then Inr False else py_le_int fo day_of_week 7)"

definition repeat_settings ::
  "'f float_ops \<Rightarrow> ('f, 'dev) calendar_deps \<Rightarrow> 'f pyval \<Rightarrow> 'f pyval \<Rightarrow>
   ('f, 'dev) machine \<Rightarrow> (error + 'f pyval \<times> 'f pyval) \<times> ('f, 'dev) machine"
where
  "repeat_settings fo deps repeat_interval0 day_of_week =
     and_then (from_result (weekly_condition fo repeat_interval0 day_of_week)) (\<lambda>weekly.
     if weekly
     then and_then (from_result (generate_simple_calendar_weekly_repeat_rule deps day_of_week))
            (\<lambda>rule.
          and_then (log_msg INFO ''Set weekly repeat'' [day_of_week, rule]) (\<lambda>_.
          ret (PInt (60 * 60 * 24 * 7), rule)))
     else if repeat_interval0 = PStr ''daily''
     then and_then (log_msg INFO ''Set daily repeat'' []) (\<lambda>_. ret (PInt (60 * 60 * 24), PInt 0))
     else ret (PInt 0, PInt 0))"

text \<open>Lines 151 to 183, the body of the \<^verbatim>\<open>try\<close> up to the construction of the event.\<close>

definition parse_time ::
  "('f, 'dev) calendar_deps \<Rightarrow> string \<Rightarrow> string \<Rightarrow> nat \<Rightarrow> 'f pyval \<Rightarrow> 'f pyval \<Rightarrow>
   ('f, 'dev) machine \<Rightarrow> (error + 'f pyval) \<times> ('f, 'dev) machine"
where
  "parse_time deps msg_str msg_ts i title0 t =
     (case t of
        PStr s \<Rightarrow>
          and_then (from_result (iso_timestamp deps s)) (\<lambda>ts.
          and_then (log_msg INFO msg_str [PInt (int i + 1), title0]) (\<lambda>_.
          ret (PInt ts)))
      | _ \<Rightarrow>
          and_then (log_msg INFO msg_ts [PInt (int i + 1), title0, t]) (\<lambda>_.
          ret t))"

definition build_event ::
  "'f float_ops \<Rightarrow> ('f, 'dev) calendar_deps \<Rightarrow> nat \<Rightarrow> 'f pyval \<Rightarrow> 'f pyval \<Rightarrow> 'f pyval \<Rightarrow>
   'f pyval \<Rightarrow> 'f pyval \<Rightarrow> 'f pyval \<Rightarrow> 'f pyval \<Rightarrow> 'f pyval \<Rightarrow>
   ('f, 'dev) machine \<Rightarrow> (error + 'f calendar_event) \<times> ('f, 'dev) machine"
where
  "build_event fo deps i title0 description0 location0 start_time end_time duration_mins
       repeat_interval1 repeat_rule1 =
     and_then (parse_time deps ''start time'' ''start timestamp'' i title0 start_time) (\<lambda>start.
     and_then
       (if truthy fo end_time
        then parse_time deps ''end time'' ''end timestamp'' i title0 end_time
        else and_then (from_result (py_mul_int fo duration_mins 60)) (\<lambda>seconds.
             and_then (from_result (py_add fo start seconds)) (\<lambda>finish.
             and_then (log_msg INFO ''duration, end timestamp''
                         [PInt (int i + 1), title0, duration_mins, finish]) (\<lambda>_.
             ret finish)))) (\<lambda>finish.
     ret \<lparr>start_ts = start, end_ts = finish, title = title0, description = description0,
          location = location0, repeat_interval = repeat_interval1,
          repeat_rule = repeat_rule1\<rparr>))"

text \<open>
  Lines 123 to 188, one turn of the loop. The result is the event appended to
  \<^verbatim>\<open>calendar_events\<close>, if any. The last statement of the \<^verbatim>\<open>try\<close> (line 186) formats
  \<^verbatim>\<open>fromtimestamp(start_ts)\<close> after the event has been appended: when that raises, the
  handler logs the failure and the event stays in the list.
\<close>

definition convert_event ::
  "'f float_ops \<Rightarrow> ('f, 'dev) calendar_deps \<Rightarrow> nat \<Rightarrow> 'f pyval \<Rightarrow>
   ('f, 'dev) machine \<Rightarrow> (error + 'f calendar_event option) \<times> ('f, 'dev) machine"
where
  "convert_event fo deps i event =
     and_then (from_result (py_get event ''title'' (PStr ''''))) (\<lambda>title0.
     and_then (from_result (py_get event ''description'' (PStr ''''))) (\<lambda>description0.
     and_then (from_result (py_get event ''location'' (PStr ''''))) (\<lambda>location0.
     and_then (from_result (py_get event ''start_time'' PNone)) (\<lambda>start_time.
     and_then (from_result (py_get event ''end_time'' PNone)) (\<lambda>end_time.
     and_then (from_result (py_get event ''duration_mins'' (PInt 30))) (\<lambda>duration_mins.
     and_then (from_result (py_get event ''repeat_interval'' (PInt 0))) (\<lambda>repeat_interval0.
     and_then (from_result (py_get event ''day_of_week'' (PInt 0))) (\<lambda>day_of_week.
     and_then (repeat_settings fo deps repeat_interval0 day_of_week) (\<lambda>repeat.
     if truthy fo title0 \<and> truthy fo start_time
     then
       and_then
         (catch
            (and_then (build_event fo deps i title0 description0 location0 start_time end_time
                         duration_mins (fst repeat) (snd repeat)) (\<lambda>calendar_event.
             ret (Some calendar_event)))
            (\<lambda>e. and_then (log_msg ERROR ''Failed to create calendar event'' [title0]) (\<lambda>_.
                  ret None)))
         (\<lambda>appended.
            case appended of
              None \<Rightarrow> ret None
            | Some calendar_event \<Rightarrow>
                and_then
                  (case fromtimestamp deps (start_ts calendar_event) of
                     Inr _ \<Rightarrow> log_msg INFO ''Prepared calendar event'' [PInt (int i + 1), title0]
                   | Inl e \<Rightarrow> log_msg ERROR ''Failed to create calendar event'' [title0])
                  (\<lambda>_. ret (Some calendar_event)))
     else ret None)))))))))"

fun convert_events ::
  "'f float_ops \<Rightarrow> ('f, 'dev) calendar_deps \<Rightarrow> (nat \<times> 'f pyval) list \<Rightarrow> 'f calendar_event list \<Rightarrow>
   ('f, 'dev) machine \<Rightarrow> (error + 'f calendar_event list) \<times> ('f, 'dev) machine"
where
  "convert_events fo deps [] calendar_events s = ret calendar_events s"
| "convert_events fo deps (ie # rest) calendar_events s =
     and_then (convert_event fo deps (fst ie) (snd ie)) (\<lambda>appended.
       convert_events fo deps rest
         (case appended of
            None \<Rightarrow> calendar_events
          | Some calendar_event \<Rightarrow> calendar_events @ [calendar_event])) s"

text \<open>Lines 190 to 227: the events prepared are inserted in bulk, then one by one.\<close>

definition verify_addition ::
  "('f, 'dev) calendar_deps \<Rightarrow> pyobj \<Rightarrow>
   ('f, 'dev) machine \<Rightarrow> (error + unit) \<times> ('f, 'dev) machine"
where
  "verify_addition deps controller =
     catch
       (and_then (external (get_rows_from_remote_device deps controller)) (\<lambda>events.
        and_then (log_msg INFO ''Total events after addition'' [PInt (int (length events))]) (\<lambda>_.
        and_then
          (for_each
             (\<lambda>ie. and_then (from_result (fromtimestamp deps (start_ts (snd ie)))) (\<lambda>_.
                   log_msg INFO ''Event'' [PInt (int (fst ie) + 1), title (snd ie)]))
             (enumerate 0 (take (min 5 (length events)) events))) (\<lambda>_.
        if length events > 5
        then log_msg INFO ''more events...'' [PInt (int (length events) - 5)]
        else ret ()))))
       (\<lambda>e. log_msg WARNING ''Unable to verify addition result'' [])"

definition insert_events ::
  "('f, 'dev) calendar_deps \<Rightarrow> pyobj \<Rightarrow> 'f calendar_event list \<Rightarrow>
   ('f, 'dev) machine \<Rightarrow> (error + unit) \<times> ('f, 'dev) machine"
where
  "insert_events deps controller calendar_events =
     (if calendar_events \<noteq> []
      then
        catch
          (and_then (log_msg INFO ''Attempting to add events to calendar database...''
                       [PInt (int (length calendar_events))]) (\<lambda>_.
           and_then (external (add_events deps calendar_events controller)) (\<lambda>_.
           and_then (log_msg INFO ''Successfully added events to calendar database''
                       [PInt (int (length calendar_events))]) (\<lambda>_.
           verify_addition deps controller))))
          (\<lambda>e. and_then (log_msg ERROR ''Failed to add events to calendar database'' []) (\<lambda>_.
                catch
                  (and_then (log_msg INFO ''Attempting to add events one by one...'' []) (\<lambda>_.
                   for_each
                     (\<lambda>ie. catch
                             (and_then (external (add_events deps [snd ie] controller)) (\<lambda>_.
                              log_msg INFO ''Successfully added event''
                                [PInt (int (fst ie) + 1), title (snd ie)]))
                             (\<lambda>e_inner. log_msg ERROR ''Failed to add single event''
                                [PInt (int (fst ie) + 1), title (snd ie)]))
                     (enumerate 0 calendar_events)))
                  (\<lambda>e2. log_msg ERROR ''Adding events one by one also failed'' [])))
      else ret ())"

definition add_specific_events ::
  "'f float_ops \<Rightarrow> ('f, 'dev) calendar_deps \<Rightarrow> 'f pyval configurator \<Rightarrow> 'f pyval \<Rightarrow>
   ('f, 'dev) machine \<Rightarrow> (error + unit) \<times> ('f, 'dev) machine"
where
  "add_specific_events fo deps self events_to_add =
     and_then (from_result (py_iter events_to_add)) (\<lambda>items.
     and_then (convert_events fo deps (enumerate 0 items) []) (\<lambda>calendar_events.
     insert_events deps (env_controller self) calendar_events))"

definition add_random_calendar_events ::
  "'f float_ops \<Rightarrow> ('f, 'dev) calendar_deps \<Rightarrow> 'f pyval configurator \<Rightarrow>
   ('f, 'dev) machine \<Rightarrow> (error + unit) \<times> ('f, 'dev) machine"
where
  "add_random_calendar_events fo deps self =
     and_then (from_result (py_get (config self) ''random_event_count'' (PInt 10)))
       (\<lambda>num_random_events.
     and_then (from_result (py_gt_int fo num_random_events 0)) (\<lambda>positive.
     if positive
     then catch
            (and_then (log_msg INFO ''Attempting to add random events to calendar...''
                         [num_random_events]) (\<lambda>_.
             and_then (external (add_random_events deps (env_controller self) num_random_events))
               (\<lambda>_.
             log_msg INFO ''Successfully added random events to calendar'' [num_random_events])))
            (\<lambda>e. log_msg ERROR ''Failed to add random events'' [])
     else ret ()))"

definition restart_calendar_app ::
  "('f, 'dev) calendar_deps \<Rightarrow> 'f pyval configurator \<Rightarrow>
   ('f, 'dev) machine \<Rightarrow> (error + unit) \<times> ('f, 'dev) machine"
where
  "restart_calendar_app deps self =
     catch
       (and_then (external (launch_app deps ''simple calendar pro'' (env_controller self))) (\<lambda>_.
        log_msg INFO ''Restarted calendar app to refresh UI'' []))
       (\<lambda>e. log_msg WARNING ''Failed to restart calendar app'' [])"

definition calendar_configure ::
  "'f float_ops \<Rightarrow> ('f, 'dev) calendar_deps \<Rightarrow> 'f pyval configurator \<Rightarrow>
   ('f, 'dev) machine \<Rightarrow> (error + bool) \<times> ('f, 'dev) machine"
where
  "calendar_configure fo deps self =
     and_then (from_result (ensure_environment self)) (\<lambda>_.
     and_then (log_msg INFO ''Configuring calendar events...'' []) (\<lambda>_.
     catch
       (and_then (setup_calendar_app deps self) (\<lambda>ready.
        if \<not> ready then ret False
        else
          and_then (from_result (py_get (config self) ''clear_events'' (PBool False))) (\<lambda>clear.
          and_then (if truthy fo clear then clear_calendar_events deps self else ret ()) (\<lambda>_.
          and_then (from_result (py_get (config self) ''add_events'' (PList []))) (\<lambda>events_to_add.
          and_then
            (if truthy fo events_to_add
             then add_specific_events fo deps self events_to_add
             else ret ()) (\<lambda>_.
          and_then (from_result (py_get (config self) ''add_random_events'' (PBool False)))
            (\<lambda>random.
          and_then (if truthy fo random then add_random_calendar_events fo deps self else ret ())
            (\<lambda>_.
          and_then (restart_calendar_app deps self) (\<lambda>_.
          ret True)))))))))
       (\<lambda>e. and_then (log_msg ERROR ''Failed to configure calendar'' []) (\<lambda>_. ret False))))"

section \<open>Notions for stating the properties of a run\<close>

text \<open>
  The modules a run executes are the entries of the priority list whose key is in the
  configuration, each with its fragment. Their outcomes, the world they leave and the
  records they cause are obtained by threading the world through the calls of \<open>run\<close> in
  that order.
\<close>

definition present_modules ::
  "(string \<times> 'frag) list \<Rightarrow> (string \<times> configurator_class) list \<Rightarrow> (string \<times> configurator_class \<times> 'frag) list" where
  "present_modules cfg order =
     List.map_filter (\<lambda>kc. map_option (\<lambda>fragment. (fst kc, snd kc, fragment)) (map_of cfg (fst kc))) order"

fun outcomes :: "(configurator_class \<Rightarrow> 'env \<Rightarrow> 'frag \<Rightarrow> 'w \<Rightarrow> outcome \<times> 'w) \<Rightarrow> 'env \<Rightarrow>
   (string \<times> configurator_class \<times> 'frag) list \<Rightarrow> 'w \<Rightarrow> outcome list" where
  "outcomes run environment [] w = []"
| "outcomes run environment ((k, cls, fragment) # ms) w =
     fst (run cls environment fragment w) # outcomes run environment ms (snd (run cls environment fragment w))"

fun final_world :: "(configurator_class \<Rightarrow> 'env \<Rightarrow> 'frag \<Rightarrow> 'w \<Rightarrow> outcome \<times> 'w) \<Rightarrow> 'env \<Rightarrow>
   (string \<times> configurator_class \<times> 'frag) list \<Rightarrow> 'w \<Rightarrow> 'w" where
  "final_world run environment [] w = w"
| "final_world run environment ((k, cls, fragment) # ms) w =
     final_world run environment ms (snd (run cls environment fragment w))"

definition outcome_event :: "string \<Rightarrow> outcome \<Rightarrow> event" where
  "outcome_event k out =
     (case out of
        Returned ok \<Rightarrow> if ok then Configured k else FailedToConfigure k
      | Raised e \<Rightarrow> ErrorConfiguring k e)"

fun module_events :: "(configurator_class \<Rightarrow> 'env \<Rightarrow> 'frag \<Rightarrow> 'w \<Rightarrow> outcome \<times> 'w) \<Rightarrow> 'env \<Rightarrow>
   (string \<times> configurator_class \<times> 'frag) list \<Rightarrow> 'w \<Rightarrow> event list" where
  "module_events run environment [] w = []"
| "module_events run environment ((k, cls, fragment) # ms) w =
     Configuring k # outcome_event k (fst (run cls environment fragment w))
       # module_events run environment ms (snd (run cls environment fragment w))"

definition successes :: "outcome list \<Rightarrow> nat" where
  "successes outs = length (filter (\<lambda>out. out = Returned True) outs)"

fun invoked_keys :: "event list \<Rightarrow> string list" where
  "invoked_keys [] = []"
| "invoked_keys (Configuring k # es) = k # invoked_keys es"
| "invoked_keys (e # es) = invoked_keys es"

section \<open>Properties of the orchestrator\<close>

subsection \<open>The two loops in closed form\<close>

lemma remaining_loop_eq:
  "remaining_loop ks st =
     st\<lparr>total_count := total_count st + length ks,
        success_count := success_count st + length ks,
        trace := trace st @ map NotInOrder ks\<rparr>"
  by (induction ks arbitrary: st) simp_all

lemma configure_module_eq:
  "configure_module run environment k cls f st =
     st\<lparr>total_count := total_count st + 1,
        success_count := success_count st + successes [fst (run cls environment f (world st))],
        world := snd (run cls environment f (world st)),
        trace := trace st @ [Configuring k, outcome_event k (fst (run cls environment f (world st)))]\<rparr>"
  by (simp add: configure_module_def Let_def successes_def outcome_event_def split: outcome.splits)

lemma present_modules_Nil: "present_modules cfg [] = []"
  by (simp add: present_modules_def map_filter_simps)

lemma present_modules_Cons:
  "present_modules cfg ((k, cls) # rest) =
     (case map_of cfg k of
        None \<Rightarrow> present_modules cfg rest
      | Some f \<Rightarrow> (k, cls, f) # present_modules cfg rest)"
  by (simp add: present_modules_def map_filter_simps split: option.splits)

lemma present_modules_append:
  "present_modules cfg (xs @ ys) = present_modules cfg xs @ present_modules cfg ys"
  by (induction xs) (auto simp: present_modules_Nil present_modules_Cons split: option.splits)

lemma successes_Cons: "successes (out # outs) = successes [out] + successes outs"
  by (simp add: successes_def)

lemma configure_loop_eq:
  "configure_loop run environment cfg order st =
     st\<lparr>total_count := total_count st + length (present_modules cfg order),
        success_count := success_count st + successes (outcomes run environment (present_modules cfg order) (world st)),
        world := final_world run environment (present_modules cfg order) (world st),
        trace := trace st @ module_events run environment (present_modules cfg order) (world st)\<rparr>"
proof (induction order arbitrary: st)
  case Nil
  then show ?case by (simp add: present_modules_Nil successes_def)
next
  case (Cons kc order)
  obtain k cls where kc: "kc = (k, cls)" by (cases kc)
  show ?case
  proof (cases "map_of cfg k")
    case None
    then show ?thesis using Cons.IH [of st] by (simp add: kc present_modules_Cons)
  next
    case (Some f)
    then show ?thesis
      using Cons.IH [of "configure_module run environment k cls f st"]
      by (simp add: kc present_modules_Cons configure_module_eq
            successes_Cons [of _ "outcomes run environment (present_modules cfg order) _"])
  qed
qed

lemma invoked_keys_append: "invoked_keys (xs @ ys) = invoked_keys xs @ invoked_keys ys"
  by (induction xs rule: invoked_keys.induct) simp_all

lemma invoked_keys_outcome_event: "invoked_keys (outcome_event k out # es) = invoked_keys es"
  by (cases out) (simp_all add: outcome_event_def)

lemma invoked_keys_module_events:
  "invoked_keys (module_events run environment ms w) = map fst ms"
  by (induction run environment ms w rule: module_events.induct)
     (simp_all add: invoked_keys_outcome_event)

lemma invoked_keys_NotInOrder: "invoked_keys (map NotInOrder ks @ [e]) = invoked_keys [e]"
  by (induction ks) simp_all

lemma successes_le: "successes outs \<le> length outs"
  by (simp add: successes_def)

lemma successes_all: "successes outs = length outs \<longleftrightarrow> (\<forall>out\<in>set outs. out = Returned True)"
proof (induction outs)
  case Nil
  then show ?case by (simp add: successes_def)
next
  case (Cons out outs)
  have "length (filter (\<lambda>out. out = Returned True) outs) \<noteq> Suc (length outs)"
    using length_filter_le [of "\<lambda>out. out = Returned True" outs] by linarith
  with Cons show ?case by (auto simp: successes_def)
qed

lemma initialize_ok:
  assumes "fst (setup_environment ds adb load w) = Inr environment"
  shows "initialize run ds adb load cfg w =
    (let w1 = snd (setup_environment ds adb load w);
         ms = present_modules cfg configuration_order;
         tot = length ms + length (remaining_configs cfg);
         suc = successes (outcomes run environment ms w1) + length (remaining_configs cfg)
     in (suc = tot,
         \<lparr>total_count = tot, success_count = suc, world = final_world run environment ms w1,
          trace = Beginning # module_events run environment ms w1
                    @ map NotInOrder (remaining_configs cfg)
                    @ [if suc = tot then Completed else CompletedWithFailures (tot - suc)]\<rparr>))"
  using assms
  by (simp add: initialize_def Let_def remaining_loop_eq configure_loop_eq)

subsection \<open>Bring-up on concrete inputs\<close>

lemma setup_emulator_listed:
  "setup_environment None (Inr ''emulator-5554 device'') (\<lambda>w. (Inr (), w)) w = (Inr (), w)"
  by (simp add: setup_environment_def strip_def is_space_def sublist_code Let_def)

lemma setup_no_emulator:
  "setup_environment None (Inr ''List of devices attached'') load w = (Inl RuntimeError, w)"
  by (simp add: setup_environment_def strip_def is_space_def sublist_code Let_def)

subsection \<open>Failure of the bring-up\<close>

text \<open>
  Claim C2. When \<^verbatim>\<open>setup_environment\<close> raises, \<^verbatim>\<open>initialize\<close> returns false, the counts
  are never incremented, and the only records are the opening one and the critical error:
  no configurator is instantiated or invoked. The result does not depend on \<open>run\<close> or on
  the configuration, and the world is the one the failed bring-up left.
\<close>

theorem bring_up_failure_aborts:
  assumes "fst (setup_environment device_serial adb load w) = Inl e"
  shows "initialize run device_serial adb load cfg w =
           (False, \<lparr>total_count = 0, success_count = 0,
                    world = snd (setup_environment device_serial adb load w),
                    trace = [Beginning, CriticalError e]\<rparr>)"
  using assms by (simp add: initialize_def Let_def)

theorem bring_up_failure_aborts_witness:
  "initialize (\<lambda>cls e f w. (Returned True, w @ [cls])) None (Inr ''List of devices attached'')
       (\<lambda>w. (Inr (), w)) [(''contacts'', ()), (''system'', ())] []
   = (False, \<lparr>total_count = 0, success_count = 0, world = [],
              trace = [Beginning, CriticalError RuntimeError]\<rparr>)"
  using bring_up_failure_aborts [of None "Inr ''List of devices attached''" "\<lambda>w. (Inr (), w)" "[]"
      RuntimeError "\<lambda>cls e f w. (Returned True, w @ [cls])" "[(''contacts'', ()), (''system'', ())]"]
  by (simp add: setup_no_emulator)

subsection \<open>Facts about the modules of a run\<close>


lemma initialize_verdict:
  assumes "fst (setup_environment device_serial adb load w) = Inr environment"
  shows "fst (initialize run device_serial adb load cfg w) \<longleftrightarrow>
           successes (outcomes run environment (present_modules cfg configuration_order)
                        (snd (setup_environment device_serial adb load w)))
           = length (present_modules cfg configuration_order)"
  by (simp add: initialize_ok [OF assms] Let_def)

lemma length_outcomes: "length (outcomes run environment ms w) = length ms"
  by (induction run environment ms w rule: outcomes.induct) simp_all

lemma outcomes_append:
  "outcomes run environment (ms1 @ ms2) w =
     outcomes run environment ms1 w @ outcomes run environment ms2 (final_world run environment ms1 w)"
  by (induction run environment ms1 w rule: outcomes.induct) simp_all

lemma final_world_append:
  "final_world run environment (ms1 @ ms2) w =
     final_world run environment ms2 (final_world run environment ms1 w)"
  by (induction run environment ms1 w rule: final_world.induct) simp_all

lemma module_events_append:
  "module_events run environment (ms1 @ ms2) w =
     module_events run environment ms1 w
       @ module_events run environment ms2 (final_world run environment ms1 w)"
  by (induction run environment ms1 w rule: module_events.induct) simp_all

lemma successes_append: "successes (xs @ ys) = successes xs + successes ys"
  by (simp add: successes_def)

lemma map_fst_present_modules:
  "map fst (present_modules cfg order) = filter (\<lambda>k. map_of cfg k \<noteq> None) (map fst order)"
proof (induction order)
  case Nil
  show ?case by (simp add: present_modules_Nil)
next
  case (Cons kc order)
  obtain k cls where kc: "kc = (k, cls)" by (cases kc)
  show ?case using Cons by (cases "map_of cfg k") (simp_all add: kc present_modules_Cons)
qed

lemma present_modules_sound:
  "(k, cls, fragment) \<in> set (present_modules cfg order) \<Longrightarrow>
     (k, cls) \<in> set order \<and> map_of cfg k = Some fragment"
proof (induction order)
  case Nil
  then show ?case by (simp add: present_modules_Nil)
next
  case (Cons kc order)
  obtain k' cls' where kc: "kc = (k', cls')" by (cases kc)
  show ?case using Cons by (cases "map_of cfg k'") (auto simp: kc present_modules_Cons)
qed

lemma priority_keys:
  "map fst configuration_order =
     [''datetime'', ''contacts'', ''sms'', ''calendar'', ''recipe'', ''tasks'', ''expense'',
      ''music'', ''joplin'', ''osmand'', ''audio_recorder'', ''markor'', ''files'',
      ''opentracks'', ''gallery'', ''system'']"
  by (simp add: configuration_order_def)

lemma remaining_configs_set:
  "set (remaining_configs cfg) = fst ` set cfg - fst ` set configuration_order"
  by (auto simp: remaining_configs_def)

lemma remaining_configs_distinct: "distinct (remaining_configs cfg)"
  by (simp add: remaining_configs_def)

lemma invoked_keys_map_NotInOrder: "invoked_keys (map NotInOrder ks) = []"
  by (induction ks) simp_all

lemma invoked_keys_initialize:
  assumes "fst (setup_environment device_serial adb load w) = Inr environment"
  shows "invoked_keys (trace (snd (initialize run device_serial adb load cfg w)))
           = map fst (present_modules cfg configuration_order)"
  by (simp add: initialize_ok [OF assms] Let_def invoked_keys_append invoked_keys_module_events
        invoked_keys_map_NotInOrder)

lemma present_modules_unknown_key:
  "k \<notin> fst ` set order \<Longrightarrow> present_modules (cfg @ [(k, v)]) order = present_modules cfg order"
proof (induction order)
  case Nil
  show ?case by (simp add: present_modules_Nil)
next
  case (Cons kc order)
  obtain k' cls' where kc: "kc = (k', cls')" by (cases kc)
  from Cons.prems have ne: "k' \<noteq> k" by (auto simp: kc)
  have lookup: "map_of (cfg @ [(k, v)]) k' = map_of cfg k'"
    using ne by (cases "map_of cfg k'") (simp_all add: map_add_def)
  have rest: "present_modules (cfg @ [(k, v)]) order = present_modules cfg order"
    using Cons by simp
  show ?case by (simp only: kc present_modules_Cons lookup rest)
qed

lemma remdups_snoc_fresh: "x \<notin> set xs \<Longrightarrow> remdups (xs @ [x]) = remdups xs @ [x]"
  by (induction xs) auto

lemma remaining_configs_unknown_key:
  assumes "k \<notin> fst ` set cfg" and "k \<notin> fst ` set configuration_order"
  shows "remaining_configs (cfg @ [(k, v)]) = remaining_configs cfg @ [k]"
proof -
  let ?keep = "\<lambda>k. k \<notin> set (map fst configuration_order)"
  have "k \<notin> set (filter ?keep (map fst cfg))" using assms(1) by auto
  then have "remdups (filter ?keep (map fst cfg) @ [k]) = remdups (filter ?keep (map fst cfg)) @ [k]"
    by (rule remdups_snoc_fresh)
  moreover have "filter ?keep (map fst (cfg @ [(k, v)])) = filter ?keep (map fst cfg) @ [k]"
    using assms(2) by simp
  ultimately show ?thesis by (simp only: remaining_configs_def)
qed

lemma last_filter_snoc: "P s \<Longrightarrow> last (filter P (xs @ [s])) = s"
  by simp

lemma present_demo:
  "present_modules [(''system'', ()), (''zzz'', ()), (''contacts'', ())] configuration_order
   = [(''contacts'', ContactsConfigurator, ()), (''system'', SystemConfigurator, ())]"
  by (simp add: present_modules_def configuration_order_def map_filter_simps)

subsection \<open>The verdict\<close>

text \<open>
  Claim C4. When the bring-up succeeds, \<^verbatim>\<open>initialize\<close> returns true exactly when the
  succeeded count equals the attempted count at the end of the run, and that is exactly
  when every configurator invoked for a present, recognized key returned true (the
  outcomes are those of the calls actually made, each in the world its predecessors left).
\<close>


theorem verdict_iff_counts_equal:
  assumes "fst (setup_environment device_serial adb load w) = Inr environment"
  shows "(fst (initialize run device_serial adb load cfg w) \<longleftrightarrow>
            success_count (snd (initialize run device_serial adb load cfg w))
            = total_count (snd (initialize run device_serial adb load cfg w)))
       \<and> (fst (initialize run device_serial adb load cfg w) \<longleftrightarrow>
            (\<forall>out \<in> set (outcomes run environment (present_modules cfg configuration_order)
                            (snd (setup_environment device_serial adb load w))).
               out = Returned True))"
proof -
  let ?outs = "outcomes run environment (present_modules cfg configuration_order)
                 (snd (setup_environment device_serial adb load w))"
  have counts: "fst (initialize run device_serial adb load cfg w) \<longleftrightarrow>
            success_count (snd (initialize run device_serial adb load cfg w))
            = total_count (snd (initialize run device_serial adb load cfg w))"
    by (simp add: initialize_ok [OF assms] Let_def)
  have "fst (initialize run device_serial adb load cfg w) \<longleftrightarrow> successes ?outs = length ?outs"
    by (simp add: initialize_verdict [OF assms] length_outcomes)
  then have "fst (initialize run device_serial adb load cfg w) \<longleftrightarrow>
               (\<forall>out \<in> set ?outs. out = Returned True)"
    by (simp add: successes_all)
  with counts show ?thesis by blast
qed

theorem verdict_iff_counts_equal_witness:
  "fst (initialize (\<lambda>cls e f w. (Returned True, w @ [cls])) None (Inr ''emulator-5554 device'')
          (\<lambda>w. (Inr (), w)) [(''system'', ()), (''zzz'', ()), (''contacts'', ())] [])"
proof -
  have up: "fst (setup_environment None (Inr ''emulator-5554 device'')
                   (\<lambda>w. (Inr (), w)) ([] :: configurator_class list)) = Inr ()"
    by (simp add: setup_emulator_listed)
  have "fst (initialize (\<lambda>cls e f w. (Returned True, w @ [cls])) None (Inr ''emulator-5554 device'')
          (\<lambda>w. (Inr (), w)) [(''system'', ()), (''zzz'', ()), (''contacts'', ())] []) \<longleftrightarrow>
        (\<forall>out \<in> set (outcomes (\<lambda>cls e f w. (Returned True, w @ [cls])) ()
                        (present_modules [(''system'', ()), (''zzz'', ()), (''contacts'', ())]
                           configuration_order)
                        (snd (setup_environment None (Inr ''emulator-5554 device'')
                                (\<lambda>w. (Inr (), w)) []))).
           out = Returned True)"
    using verdict_iff_counts_equal [OF up] by blast
  then show ?thesis by (simp add: present_demo)
qed

subsection \<open>Keys outside the priority list\<close>

text \<open>
  Claim C1. When the bring-up succeeds, the attempted count is the number of present
  recognized keys plus the number of unrecognized keys, the succeeded count is the number
  of recognized modules that returned true plus the number of unrecognized keys, and each
  unrecognized key is counted once. The world at the end is the one the recognized modules
  left and no unrecognized key is among the keys configured, so no configurator runs for
  such a key. Adding one more unrecognized key to a configuration adds exactly one to both
  counts and changes neither the world nor the verdict. The witness is scenario E: the
  only key is \<open>unknown_module\<close>.
\<close>


theorem unknown_keys_counted_not_run:
  assumes up: "fst (setup_environment device_serial adb load w) = Inr environment"
  shows "total_count (snd (initialize run device_serial adb load cfg w))
           = length (present_modules cfg configuration_order) + length (remaining_configs cfg)
       \<and> success_count (snd (initialize run device_serial adb load cfg w))
           = successes (outcomes run environment (present_modules cfg configuration_order)
                          (snd (setup_environment device_serial adb load w)))
             + length (remaining_configs cfg)
       \<and> world (snd (initialize run device_serial adb load cfg w))
           = final_world run environment (present_modules cfg configuration_order)
               (snd (setup_environment device_serial adb load w))
       \<and> distinct (remaining_configs cfg)
       \<and> set (remaining_configs cfg) = fst ` set cfg - fst ` set configuration_order
       \<and> set (remaining_configs cfg)
           \<inter> set (invoked_keys (trace (snd (initialize run device_serial adb load cfg w)))) = {}
       \<and> (k \<notin> fst ` set cfg \<and> k \<notin> fst ` set configuration_order \<longrightarrow>
            total_count (snd (initialize run device_serial adb load (cfg @ [(k, v)]) w))
              = total_count (snd (initialize run device_serial adb load cfg w)) + 1
          \<and> success_count (snd (initialize run device_serial adb load (cfg @ [(k, v)]) w))
              = success_count (snd (initialize run device_serial adb load cfg w)) + 1
          \<and> world (snd (initialize run device_serial adb load (cfg @ [(k, v)]) w))
              = world (snd (initialize run device_serial adb load cfg w))
          \<and> fst (initialize run device_serial adb load (cfg @ [(k, v)]) w)
              = fst (initialize run device_serial adb load cfg w))"
proof -
  have disjoint: "set (remaining_configs cfg)
           \<inter> set (invoked_keys (trace (snd (initialize run device_serial adb load cfg w)))) = {}"
    by (auto simp: invoked_keys_initialize [OF up] map_fst_present_modules remaining_configs_set)
  have delta: "total_count (snd (initialize run device_serial adb load (cfg @ [(k, v)]) w))
              = total_count (snd (initialize run device_serial adb load cfg w)) + 1
          \<and> success_count (snd (initialize run device_serial adb load (cfg @ [(k, v)]) w))
              = success_count (snd (initialize run device_serial adb load cfg w)) + 1
          \<and> world (snd (initialize run device_serial adb load (cfg @ [(k, v)]) w))
              = world (snd (initialize run device_serial adb load cfg w))
          \<and> fst (initialize run device_serial adb load (cfg @ [(k, v)]) w)
              = fst (initialize run device_serial adb load cfg w)"
    if "k \<notin> fst ` set cfg" and "k \<notin> fst ` set configuration_order"
    using that
    by (simp add: initialize_ok [OF up] Let_def present_modules_unknown_key
          remaining_configs_unknown_key)
  show ?thesis
    using disjoint delta
    by (simp add: initialize_ok [OF up] Let_def remaining_configs_distinct remaining_configs_set)
qed

theorem unknown_keys_counted_not_run_witness:
  "initialize (\<lambda>cls e f w. (Raised ExternalError, w @ [cls])) None (Inr ''emulator-5554 device'')
     (\<lambda>w. (Inr (), w)) [(''unknown_module'', ())] []
   = (True, \<lparr>total_count = 1, success_count = 1, world = [],
             trace = [Beginning, NotInOrder ''unknown_module'', Completed]\<rparr>)"
proof -
  let ?run = "\<lambda>(cls :: configurator_class) (e :: unit) (f :: unit) w. (Raised ExternalError, w @ [cls])"
  let ?r = "initialize ?run None (Inr ''emulator-5554 device'') (\<lambda>w. (Inr (), w))
              [(''unknown_module'', ())] []"
  have up: "fst (setup_environment None (Inr ''emulator-5554 device'')
                   (\<lambda>w. (Inr (), w)) ([] :: configurator_class list)) = Inr ()"
    by (simp add: setup_emulator_listed)
  have none: "present_modules [(''unknown_module'', ())] configuration_order = []"
    by (simp add: present_modules_def configuration_order_def map_filter_simps)
  have rest: "remaining_configs [(''unknown_module'', ())] = [''unknown_module'']"
    by (simp add: remaining_configs_def configuration_order_def)
  have "total_count (snd ?r) = 1 \<and> success_count (snd ?r) = 1 \<and> world (snd ?r) = []"
    using unknown_keys_counted_not_run [OF up, of ?run "[(''unknown_module'', ())]"]
    by (simp add: none rest successes_def setup_emulator_listed)
  moreover have "fst ?r" and "trace (snd ?r) = [Beginning, NotInOrder ''unknown_module'', Completed]"
    by (simp_all add: initialize_ok [OF up] Let_def none rest successes_def)
  ultimately show ?thesis
    by (cases ?r) (auto intro: run_state.equality)
qed

subsection \<open>The order of invocation\<close>

text \<open>
  Claim C7, as amended. When the bring-up succeeds, the keys configured, in the order of
  the records, are the keys present in the configuration taken from the priority list
  datetime, contacts, sms, calendar, recipe, tasks, expense, music, joplin, osmand,
  audio_recorder, markor, files, opentracks, gallery, system; each is run with the class
  the list pairs it with and the fragment the configuration holds for it; the world at the
  end is the one obtained by running exactly these modules in this order; the warnings for
  unrecognized keys come after all records of the modules; and \<open>system\<close>, when present, is
  the last key configured. (When the bring-up fails no configurator is invoked whatever
  keys are present: the counterexample below.)
\<close>

theorem priority_order_when_brought_up:
  assumes up: "fst (setup_environment device_serial adb load w) = Inr environment"
  shows "invoked_keys (trace (snd (initialize run device_serial adb load cfg w)))
           = filter (\<lambda>k. map_of cfg k \<noteq> None)
               [''datetime'', ''contacts'', ''sms'', ''calendar'', ''recipe'', ''tasks'',
                ''expense'', ''music'', ''joplin'', ''osmand'', ''audio_recorder'', ''markor'',
                ''files'', ''opentracks'', ''gallery'', ''system'']
       \<and> map fst (present_modules cfg configuration_order)
           = invoked_keys (trace (snd (initialize run device_serial adb load cfg w)))
       \<and> (\<forall>m \<in> set (present_modules cfg configuration_order).
             (fst m, fst (snd m)) \<in> set configuration_order
             \<and> map_of cfg (fst m) = Some (snd (snd m)))
       \<and> world (snd (initialize run device_serial adb load cfg w))
           = final_world run environment (present_modules cfg configuration_order)
               (snd (setup_environment device_serial adb load w))
       \<and> trace (snd (initialize run device_serial adb load cfg w))
           = Beginning
             # module_events run environment (present_modules cfg configuration_order)
                 (snd (setup_environment device_serial adb load w))
             @ map NotInOrder (remaining_configs cfg)
             @ [if fst (initialize run device_serial adb load cfg w) then Completed
                else CompletedWithFailures
                       (total_count (snd (initialize run device_serial adb load cfg w))
                        - success_count (snd (initialize run device_serial adb load cfg w)))]
       \<and> (map_of cfg ''system'' \<noteq> None \<longrightarrow>
            last (invoked_keys (trace (snd (initialize run device_serial adb load cfg w))))
              = ''system'')"
proof -
  let ?r = "initialize run device_serial adb load cfg w"
  have keys: "invoked_keys (trace (snd ?r))
           = filter (\<lambda>k. map_of cfg k \<noteq> None)
               [''datetime'', ''contacts'', ''sms'', ''calendar'', ''recipe'', ''tasks'',
                ''expense'', ''music'', ''joplin'', ''osmand'', ''audio_recorder'', ''markor'',
                ''files'', ''opentracks'', ''gallery'', ''system'']"
    by (simp only: invoked_keys_initialize [OF up] map_fst_present_modules priority_keys)
  have same: "map fst (present_modules cfg configuration_order) = invoked_keys (trace (snd ?r))"
    by (simp only: invoked_keys_initialize [OF up])
  have sound: "\<forall>m \<in> set (present_modules cfg configuration_order).
             (fst m, fst (snd m)) \<in> set configuration_order
             \<and> map_of cfg (fst m) = Some (snd (snd m))"
  proof
    fix m assume "m \<in> set (present_modules cfg configuration_order)"
    then have "(fst m, fst (snd m), snd (snd m)) \<in> set (present_modules cfg configuration_order)"
      by simp
    then show "(fst m, fst (snd m)) \<in> set configuration_order
             \<and> map_of cfg (fst m) = Some (snd (snd m))"
      by (rule present_modules_sound)
  qed
  have rest: "world (snd ?r)
           = final_world run environment (present_modules cfg configuration_order)
               (snd (setup_environment device_serial adb load w))
       \<and> trace (snd ?r)
           = Beginning
             # module_events run environment (present_modules cfg configuration_order)
                 (snd (setup_environment device_serial adb load w))
             @ map NotInOrder (remaining_configs cfg)
             @ [if fst ?r then Completed
                else CompletedWithFailures (total_count (snd ?r) - success_count (snd ?r))]"
    by (simp add: initialize_ok [OF up] Let_def)
  have system: "last (invoked_keys (trace (snd ?r))) = ''system''"
    if "map_of cfg ''system'' \<noteq> None"
  proof -
    have "last (filter (\<lambda>k. map_of cfg k \<noteq> None)
               ([''datetime'', ''contacts'', ''sms'', ''calendar'', ''recipe'', ''tasks'',
                ''expense'', ''music'', ''joplin'', ''osmand'', ''audio_recorder'', ''markor'',
                ''files'', ''opentracks'', ''gallery''] @ [''system''])) = ''system''"
      using that by (rule last_filter_snoc)
    then show ?thesis by (simp only: keys append.simps)
  qed
  from keys same sound rest system show ?thesis by blast
qed

theorem priority_order_when_brought_up_witness:
  "invoked_keys (trace (snd (initialize (\<lambda>cls e f w. (Returned True, w @ [cls])) None
       (Inr ''emulator-5554 device'') (\<lambda>w. (Inr (), w))
       [(''system'', ()), (''zzz'', ()), (''contacts'', ())] [])))
     = [''contacts'', ''system'']
   \<and> world (snd (initialize (\<lambda>cls e f w. (Returned True, w @ [cls])) None
       (Inr ''emulator-5554 device'') (\<lambda>w. (Inr (), w))
       [(''system'', ()), (''zzz'', ()), (''contacts'', ())] []))
     = [ContactsConfigurator, SystemConfigurator]"
proof -
  let ?run = "\<lambda>(cls :: configurator_class) (e :: unit) (f :: unit) w. (Returned True, w @ [cls])"
  let ?cfg = "[(''system'', ()), (''zzz'', ()), (''contacts'', ())]"
  let ?r = "initialize ?run None (Inr ''emulator-5554 device'') (\<lambda>w. (Inr (), w)) ?cfg []"
  have up: "fst (setup_environment None (Inr ''emulator-5554 device'')
                   (\<lambda>w. (Inr (), w)) ([] :: configurator_class list)) = Inr ()"
    by (simp add: setup_emulator_listed)
  note all = priority_order_when_brought_up [OF up, of ?run ?cfg]
  have "map fst (present_modules ?cfg configuration_order) = invoked_keys (trace (snd ?r))"
    using all by (elim conjE)
  then have keys: "invoked_keys (trace (snd ?r)) = [''contacts'', ''system'']"
    by (simp add: present_demo)
  have "world (snd ?r) = final_world ?run () (present_modules ?cfg configuration_order)
               (snd (setup_environment None (Inr ''emulator-5554 device'') (\<lambda>w. (Inr (), w)) []))"
    using all by (elim conjE)
  then have "world (snd ?r) = [ContactsConfigurator, SystemConfigurator]"
    by (simp add: present_demo setup_emulator_listed)
  with keys show ?thesis by (rule conjI)
qed

text \<open>
  The claim as stated, for every configuration, fails when the bring-up fails: the
  configuration has the key \<open>contacts\<close>, and no configurator is invoked.
\<close>

theorem invoked_without_bring_up_counterexample:
  "invoked_keys (trace (snd (initialize (\<lambda>cls e f w. (Returned True, w @ [cls])) None
       (Inr ''List of devices attached'') (\<lambda>w. (Inr (), w)) [(''contacts'', ())] []))) = []
   \<and> filter (\<lambda>k. map_of [(''contacts'', ())] k \<noteq> None) (map fst configuration_order)
       = [''contacts'']"
  by (simp add: initialize_def Let_def setup_no_emulator configuration_order_def)

end
